theory Spec2Isabelle
  imports Main "HOL-Library.Word" "HOL-Library.Multiset"
begin

section \<open>Data model\<close>

text \<open>
  Instants (\<^verbatim>\<open>time.Time\<close>) are only copied and compared by the code under study, so an
  instant is an integer on a common time line.
\<close>

type_synonym time = int

subsection \<open>Decimal amounts\<close>

text \<open>
  Every monetary column is \<^verbatim>\<open>numeric(20,2)\<close> and the only other decimals the code builds
  are \<^verbatim>\<open>decimal.NewFromInt\<close> of an \<^verbatim>\<open>int64\<close> and differences of the two, so every
  \<^verbatim>\<open>decimal.Decimal\<close> the program handles is a whole number of hundredths. The library
  (shopspring/decimal) is arbitrary precision: nothing wraps.
\<close>

datatype decimal = Hundredths int

fun hundredths :: "decimal \<Rightarrow> int" where
  "hundredths (Hundredths v) = v"

definition decimal_NewFromInt :: "64 word \<Rightarrow> decimal" where
  "decimal_NewFromInt v = Hundredths (100 * sint v)"

fun decimal_Equal :: "decimal \<Rightarrow> decimal \<Rightarrow> bool" where
  "decimal_Equal (Hundredths a) (Hundredths b) = (a = b)"

fun decimal_Sub :: "decimal \<Rightarrow> decimal \<Rightarrow> decimal" where
  "decimal_Sub (Hundredths a) (Hundredths b) = Hundredths (a - b)"

fun decimal_Add :: "decimal \<Rightarrow> decimal \<Rightarrow> decimal" where
  "decimal_Add (Hundredths a) (Hundredths b) = Hundredths (a + b)"

text \<open>The byte \<^verbatim>\<open>'0' + d\<close> of a decimal digit \<open>d < 10\<close>.\<close>

definition digit_byte :: "nat \<Rightarrow> char" where
  "digit_byte d = ''0123456789'' ! d"

text \<open>The decimal numeral of a natural number, most significant digit first.\<close>

fun decimal_string :: "nat \<Rightarrow> string" where
  "decimal_string n =
     (if n < 10 then [digit_byte n]
      else decimal_string (n div 10) @ [digit_byte (n mod 10)])"

declare decimal_string.simps [simp del]

text \<open>
  \<^verbatim>\<open>Decimal.String()\<close>: sign, integer part, and the fractional digits with trailing
  zeros (and then a bare point) removed.
\<close>

fun decimal_String :: "decimal \<Rightarrow> string" where
  "decimal_String (Hundredths v) =
     (let a = nat \<bar>v\<bar>;
          intPart = decimal_string (a div 100);
          fractionalPart =
            (if a mod 100 = 0 then []
             else if a mod 10 = 0 then [digit_byte (a mod 100 div 10)]
             else [digit_byte (a mod 100 div 10), digit_byte (a mod 10)]);
          number = (if fractionalPart = [] then intPart else intPart @ ''.'' @ fractionalPart)
      in if v < 0 then ''-'' @ number else number)"

declare decimal_String.simps [simp del]

subsection \<open>Users\<close>

text \<open>\<^verbatim>\<open>type TrustLevel uint8\<close>.\<close>

type_synonym TrustLevel = "8 word"

text \<open>\<^verbatim>\<open>model.User\<close>, the row type of the \<^verbatim>\<open>users\<close> table.\<close>

record User =
  ID :: "64 word"
  Username :: string
  Nickname :: string
  AvatarUrl :: string
  TrustLevel :: TrustLevel
  PayScore :: "64 word"
  PayKey :: string
  SignKey :: string
  TotalReceive :: decimal
  TotalPayment :: decimal
  TotalTransfer :: decimal
  TotalCommunity :: decimal
  AvailableBalance :: decimal
  IsActive :: bool
  IsAdmin :: bool
  LastLoginAt :: time
  CreatedAt :: time
  UpdatedAt :: time

text \<open>\<^verbatim>\<open>model.UserGamificationScoreResponse\<close>.\<close>

record UserGamificationScoreResponse =
  GamificationScore :: "64 word"

subsection \<open>Orders\<close>

text \<open>
  \<^verbatim>\<open>type OrderStatus string\<close> and \<^verbatim>\<open>type OrderType string\<close>: the handlers convert
  request strings to them directly.
\<close>

type_synonym OrderStatus = string
type_synonym OrderType = string

text \<open>
  Modelled from the spec: the Go declarations of the constants
  \<^verbatim>\<open>model.OrderStatusSuccess\<close> and \<^verbatim>\<open>model.OrderTypeCommunity\<close> are not among the
  sources; they are the member \<^verbatim>\<open>success\<close> of the spec's status domain and the member
  \<^verbatim>\<open>community\<close> of its type domain \<^verbatim>\<open>receive | payment | transfer | community\<close>.
\<close>

definition OrderStatusSuccess :: OrderStatus where
  "OrderStatusSuccess = ''success''"

definition OrderTypeCommunity :: OrderType where
  "OrderTypeCommunity = ''community''"


text \<open>
  The columns of the \<^verbatim>\<open>orders\<close> table: every field of \<^verbatim>\<open>model.Order\<close> except
  \<^verbatim>\<open>OrderNo\<close>, which is tagged \<^verbatim>\<open>gorm:"-"\<close>. \<^verbatim>\<open>ExpiresAt\<close> is the field the
  reconciliation worker fills in.
\<close>

record order_row =
  ID :: "64 word"
  OrderName :: string
  MerchantOrderNo :: string
  ClientID :: string
  PayerUsername :: string
  PayeeUsername :: string
  Amount :: decimal
  Status :: OrderStatus
  Type :: OrderType
  Remark :: string
  TradeTime :: time
  ExpiresAt :: time
  CreatedAt :: time
  UpdatedAt :: time

text \<open>The Go struct \<^verbatim>\<open>model.Order\<close>: the columns and the field \<^verbatim>\<open>OrderNo\<close>.\<close>

record Order = order_row +
  OrderNo :: string

text \<open>Writing a struct stores its columns; \<^verbatim>\<open>OrderNo\<close> has no column.\<close>

definition order_columns :: "Order \<Rightarrow> order_row" where
  "order_columns ord = order_row.truncate ord"

text \<open>
  \<^verbatim>\<open>fmt.Sprintf("%018d", id)\<close> for an unsigned value, as \<^verbatim>\<open>fmt\<close> formats integers:
  the digits are written into a buffer from the right, and with the zero flag the width
  becomes the minimal number of digits, zeros being written on the left until it is
  reached.
\<close>

fun fmt_digits :: "nat \<Rightarrow> string \<Rightarrow> string" where
  "fmt_digits u buf =
     (if 10 \<le> u then fmt_digits (u div 10) (digit_byte (u - (u div 10) * 10) # buf)
      else digit_byte u # buf)"

function fmt_zero_fill :: "nat \<Rightarrow> string \<Rightarrow> string" where
  "fmt_zero_fill prec buf =
     (if length buf < prec then fmt_zero_fill prec (CHR ''0'' # buf) else buf)"
  by pat_completeness auto
termination
  by (relation "measure (\<lambda>(prec, buf). prec - length buf)") auto

declare fmt_digits.simps [simp del] fmt_zero_fill.simps [simp del]

definition Sprintf_018d :: "64 word \<Rightarrow> string" where
  "Sprintf_018d v = fmt_zero_fill 18 (fmt_digits (unat v) [])"

text \<open>The hook \<^verbatim>\<open>(*Order).AfterFind\<close>; it always returns \<^verbatim>\<open>nil\<close>.\<close>

definition AfterFind :: "Order \<Rightarrow> Order" where
  "AfterFind ord = ord\<lparr>OrderNo := Sprintf_018d (order_row.ID ord)\<rparr>"

text \<open>
  Reading a row into a struct: the columns are scanned, \<^verbatim>\<open>OrderNo\<close> starts as the empty
  string, and the hook runs.
\<close>

definition scan_order :: "order_row \<Rightarrow> Order" where
  "scan_order row = AfterFind (order_row.extend row (Order.fields []))"

text \<open>The spec's \<^verbatim>\<open>pad(id, 18, '0')\<close>: \<open>s\<close> left-padded with \<open>c\<close> to \<open>w\<close> characters.\<close>

definition spec_pad :: "string \<Rightarrow> nat \<Rightarrow> char \<Rightarrow> string" where
  "spec_pad s w c = replicate (w - length s) c @ s"

subsection \<open>Errors\<close>

text \<open>
  A Go \<^verbatim>\<open>error\<close>: an opaque error with its message, an error wrapped by
  \<^verbatim>\<open>fmt.Errorf("<prefix>: %w", err)\<close>, or the validator's list of failed fields
  (field name and failed tag).
\<close>

datatype error =
    Error string
  | Wrapped string error
  | ValidationErrors "(string \<times> string) list"

text \<open>\<^verbatim>\<open>errors.Is\<close>: the target is the error itself or is reached by unwrapping.\<close>

fun errors_Is :: "error \<Rightarrow> error \<Rightarrow> bool" where
  "errors_Is (Wrapped prefix e) target = (Wrapped prefix e = target \<or> errors_Is e target)"
| "errors_Is e target = (e = target)"

fun join_lines :: "string list \<Rightarrow> string" where
  "join_lines [] = []"
| "join_lines [l] = l"
| "join_lines (l # ls) = l @ [CHR 0x0A] @ join_lines ls"

definition field_error_string :: "string \<Rightarrow> string \<times> string \<Rightarrow> string" where
  "field_error_string struct ft =
     ''Key: '' @ [CHR 0x27] @ struct @ ''.'' @ fst ft @ [CHR 0x27]
     @ '' Error:Field validation for '' @ [CHR 0x27] @ fst ft @ [CHR 0x27]
     @ '' failed on the '' @ [CHR 0x27] @ snd ft @ [CHR 0x27] @ '' tag''"

text \<open>\<^verbatim>\<open>err.Error()\<close>.\<close>

fun error_Error :: "error \<Rightarrow> string" where
  "error_Error (Error msg) = msg"
| "error_Error (Wrapped prefix e) = prefix @ '': '' @ error_Error e"
| "error_Error (ValidationErrors fs) =
     join_lines (map (field_error_string ''TransactionListRequest'') fs)"

text \<open>Arithmetic on Go's \<^verbatim>\<open>int\<close>, \<^verbatim>\<open>int64\<close> and \<^verbatim>\<open>time.Duration\<close> wraps at 64 bits.\<close>

definition int64_wrap :: "int \<Rightarrow> int" where
  "int64_wrap x = (x + 2 ^ 63) mod 2 ^ 64 - 2 ^ 63"

section \<open>Transaction list\<close>

text \<open>
  \<^verbatim>\<open>TransactionListRequest\<close>, with the \<^verbatim>\<open>binding\<close> tags
  \<^verbatim>\<open>Page: min=1\<close>, \<^verbatim>\<open>PageSize: min=1,max=100\<close>,
  \<^verbatim>\<open>Type: omitempty,oneof=receive payment transfer community\<close>,
  \<^verbatim>\<open>Status: omitempty,oneof=success pending failed disputing refund refunded\<close>,
  \<^verbatim>\<open>StartTime: omitempty\<close>, \<^verbatim>\<open>EndTime: omitempty,gtfield=StartTime\<close>.
  \<^verbatim>\<open>Page\<close> and \<^verbatim>\<open>PageSize\<close> are Go \<^verbatim>\<open>int\<close>s; the two times are pointers.
\<close>

record TransactionListRequest =
  Page :: int
  PageSize :: int
  Type :: string
  Status :: string
  StartTime :: "time option"
  EndTime :: "time option"

record TransactionListResponse =
  Total :: int
  Page :: int
  PageSize :: int
  Orders :: "Order list"

text \<open>\<^verbatim>\<open>util.Response[T]\<close> with the constructors \<^verbatim>\<open>util.OK\<close> and \<^verbatim>\<open>util.Err\<close>.\<close>

record 'a Response =
  ErrorMsg :: string
  Data :: "'a option"

definition OK :: "'a \<Rightarrow> 'a Response" where
  "OK data = \<lparr>ErrorMsg = [], Data = Some data\<rparr>"

definition Err :: "string \<Rightarrow> 'a Response" where
  "Err msg = \<lparr>ErrorMsg = msg, Data = None\<rparr>"

definition type_filter_values :: "string list" where
  "type_filter_values = [''receive'', ''payment'', ''transfer'', ''community'']"

definition status_filter_values :: "string list" where
  "status_filter_values =
     [''success'', ''pending'', ''failed'', ''disputing'', ''refund'', ''refunded'']"

text \<open>
  The validator runs over the fields in order and reports, for each field, the first tag
  that fails. \<^verbatim>\<open>omitempty\<close> skips a field holding its zero value (the empty string,
  a nil pointer); \<^verbatim>\<open>gtfield\<close> fails when the other field is nil.
\<close>

definition validate_request :: "TransactionListRequest \<Rightarrow> (string \<times> string) list" where
  "validate_request req =
     (if TransactionListRequest.Page req < 1 then [(''Page'', ''min'')] else [])
     @ (if TransactionListRequest.PageSize req < 1 then [(''PageSize'', ''min'')]
        else if 100 < TransactionListRequest.PageSize req then [(''PageSize'', ''max'')]
        else [])
     @ (if TransactionListRequest.Type req \<noteq> []
           \<and> TransactionListRequest.Type req \<notin> set type_filter_values
        then [(''Type'', ''oneof'')] else [])
     @ (if TransactionListRequest.Status req \<noteq> []
           \<and> TransactionListRequest.Status req \<notin> set status_filter_values
        then [(''Status'', ''oneof'')] else [])
     @ (case EndTime req of
          None \<Rightarrow> []
        | Some e \<Rightarrow>
            (case StartTime req of
               None \<Rightarrow> [(''EndTime'', ''gtfield'')]
             | Some s \<Rightarrow> if s < e then [] else [(''EndTime'', ''gtfield'')]))"

text \<open>
  \<^verbatim>\<open>c.ShouldBindJSON(&req)\<close>: the body either fails to decode (\<open>Inl\<close>) or decodes to
  a request, which is then validated.
\<close>

definition ShouldBindJSON :: "error + TransactionListRequest \<Rightarrow> error + TransactionListRequest" where
  "ShouldBindJSON body =
     (case body of
        Inl e \<Rightarrow> Inl e
      | Inr req \<Rightarrow>
          (case validate_request req of
             [] \<Rightarrow> Inr req
           | f # fs \<Rightarrow> Inl (ValidationErrors (f # fs))))"

text \<open>The \<^verbatim>\<open>Where\<close> clauses of \<^verbatim>\<open>baseQuery\<close>, as a predicate on a row.\<close>

definition baseQuery :: "string \<Rightarrow> TransactionListRequest \<Rightarrow> order_row \<Rightarrow> bool" where
  "baseQuery username req row =
     ((PayeeUsername row = username \<or> PayerUsername row = username)
      \<and> (if TransactionListRequest.Status req \<noteq> []
         then order_row.Status row = TransactionListRequest.Status req else True)
      \<and> (if TransactionListRequest.Type req \<noteq> []
         then order_row.Type row = TransactionListRequest.Type req else True)
      \<and> (case StartTime req of None \<Rightarrow> True | Some s \<Rightarrow> s \<le> CreatedAt row)
      \<and> (case EndTime req of None \<Rightarrow> True | Some e \<Rightarrow> CreatedAt row \<le> e))"

text \<open>
  \<^verbatim>\<open>ORDER BY created_at DESC\<close>. SQL leaves the order of rows with equal keys open: it
  is the datastore's choice, given by a rank \<open>tie\<close> of the order ids.
\<close>

definition order_by_created_at_desc :: "(64 word \<Rightarrow> nat) \<Rightarrow> order_row list \<Rightarrow> order_row list" where
  "order_by_created_at_desc tie rows =
     rev (sort_key CreatedAt (sort_key (\<lambda>row. tie (order_row.ID row)) rows))"

text \<open>
  The datastore as the handler sees it: the \<^verbatim>\<open>orders\<close> table, for each of its two
  statements the error the datastore answers with, if any, and the order in which it
  returns orders created at the same instant.
\<close>

record list_env =
  orders_table :: "order_row list"
  count_fault :: "error option"
  find_fault :: "error option"
  created_at_tie :: "64 word \<Rightarrow> nat"

text \<open>The statements a handler sends to the datastore, in order.\<close>

datatype db_call = CountCall | FindCall int int

text \<open>
  \<^verbatim>\<open>ListTransactions\<close>, for the authenticated user \<open>username\<close>: the statements sent,
  the HTTP status and the JSON body. gorm writes \<^verbatim>\<open>OFFSET\<close> only for a positive offset.
\<close>

definition ListTransactions ::
  "list_env \<Rightarrow> string \<Rightarrow> error + TransactionListRequest
   \<Rightarrow> db_call list \<times> nat \<times> TransactionListResponse Response" where
  "ListTransactions env username body =
     (case ShouldBindJSON body of
        Inl err \<Rightarrow> ([], 400, Err (error_Error err))
      | Inr req \<Rightarrow>
          (let matching = filter (baseQuery username req) (orders_table env) in
           case count_fault env of
             Some err \<Rightarrow> ([CountCall], 500, Err (error_Error err))
           | None \<Rightarrow>
               (let total = int (length matching);
                    offset = int64_wrap ((TransactionListRequest.Page req - 1)
                                          * TransactionListRequest.PageSize req);
                    calls = [CountCall, FindCall offset (TransactionListRequest.PageSize req)] in
                case find_fault env of
                  Some err \<Rightarrow> (calls, 500, Err (error_Error err))
                | None \<Rightarrow>
                    (let orders = map scan_order
                           (take (nat (TransactionListRequest.PageSize req))
                              (drop (nat offset) (order_by_created_at_desc (created_at_tie env) matching)))
                     in (calls, 200,
                         OK \<lparr>Total = total,
                             Page = TransactionListRequest.Page req,
                             PageSize = TransactionListRequest.PageSize req,
                             Orders = orders\<rparr>)))))"

section \<open>The datastore\<close>

text \<open>The two tables the reconciliation pipeline touches.\<close>

record db =
  users :: "User list"
  orders :: "order_row list"

text \<open>\<^verbatim>\<open>gorm.ErrRecordNotFound\<close>.\<close>

definition ErrRecordNotFound :: error where
  "ErrRecordNotFound = Error ''record not found''"

text \<open>
  Every statement takes the error the datastore answers it with, if any (\<open>fault\<close>):
  a lost connection, a violated constraint, an overflowing \<^verbatim>\<open>numeric(20,2)\<close>, a
  refused statement.

  \<^verbatim>\<open>Where("id = ?", id).First(&user)\<close>: the first row with this primary key, or
  \<^verbatim>\<open>ErrRecordNotFound\<close>.
\<close>

definition First :: "error option \<Rightarrow> 64 word \<Rightarrow> db \<Rightarrow> error + User" where
  "First fault uid d =
     (case fault of
        Some err \<Rightarrow> Inl err
      | None \<Rightarrow>
          (case find (\<lambda>u. User.ID u = uid) (users d) of
             None \<Rightarrow> Inl ErrRecordNotFound
           | Some u \<Rightarrow> Inr u))"

text \<open>
  \<^verbatim>\<open>tx.Model(&user).UpdateColumns(...)\<close> with the three assignments of the worker:
  \<^verbatim>\<open>UPDATE users SET total_community = new, total_receive = total_receive + diff,
  available_balance = available_balance + diff WHERE id = user.ID\<close>. The two sums are
  computed by the datastore on the stored row. \<^verbatim>\<open>UpdateColumns\<close> runs no hooks and
  leaves \<^verbatim>\<open>updated_at\<close> alone.
\<close>

definition UpdateColumns ::
  "error option \<Rightarrow> User \<Rightarrow> decimal \<Rightarrow> decimal \<Rightarrow> db \<Rightarrow> error + db" where
  "UpdateColumns fault user newCommunityBalance diff tx =
     (case fault of
        Some err \<Rightarrow> Inl err
      | None \<Rightarrow>
          Inr (tx\<lparr>users :=
                 map (\<lambda>u. if User.ID u = User.ID user
                          then u\<lparr>TotalCommunity := newCommunityBalance,
                                 TotalReceive := decimal_Add (TotalReceive u) diff,
                                 AvailableBalance := decimal_Add (AvailableBalance u) diff\<rparr>
                          else u)
                   (users tx)\<rparr>))"

text \<open>The next value of the auto-increment primary key of \<^verbatim>\<open>orders\<close>.\<close>

definition next_order_id :: "order_row list \<Rightarrow> 64 word" where
  "next_order_id rows = fold max (map order_row.ID rows) 0 + 1"

text \<open>
  \<^verbatim>\<open>tx.Create(&order)\<close> for a struct whose \<^verbatim>\<open>ID\<close>, \<^verbatim>\<open>CreatedAt\<close> and
  \<^verbatim>\<open>UpdatedAt\<close> are unset, as the worker's is: the columns are inserted with the next
  ID and with gorm's clock \<open>clock\<close> in both timestamps.
\<close>

definition Create :: "error option \<Rightarrow> time \<Rightarrow> Order \<Rightarrow> db \<Rightarrow> error + db" where
  "Create fault clock ord tx =
     (case fault of
        Some err \<Rightarrow> Inl err
      | None \<Rightarrow>
          Inr (tx\<lparr>orders :=
                 orders tx
                 @ [(order_columns ord)\<lparr>order_row.ID := next_order_id (orders tx),
                                         order_row.CreatedAt := clock,
                                         order_row.UpdatedAt := clock\<rparr>]\<rparr>))"

text \<open>
  \<^verbatim>\<open>db.Transaction(fc)\<close>: \<open>fc\<close> runs on the transaction; when it returns an error
  the transaction is rolled back and the error returned; otherwise the transaction
  commits, and a failing commit leaves the datastore as it was.
\<close>

definition Transaction ::
  "error option \<Rightarrow> (db \<Rightarrow> error + db) \<Rightarrow> db \<Rightarrow> db \<times> error option" where
  "Transaction commit_fault fc d =
     (case fc d of
        Inl err \<Rightarrow> (d, Some err)
      | Inr tx \<Rightarrow>
          (case commit_fault of
             Some err \<Rightarrow> (d, Some err)
           | None \<Rightarrow> (tx, None)))"

section \<open>Single-user reconciliation worker\<close>

text \<open>
  The answer of \<^verbatim>\<open>util.Request\<close>, as far as the worker reads it: the status code, and
  what decoding the body as JSON gives, a \<^verbatim>\<open>UserGamificationScoreResponse\<close> or the
  decoder's error.
\<close>

record http_reply =
  StatusCode :: nat
  Body :: "error + UserGamificationScoreResponse"

text \<open>
  What a run of the worker meets outside its own code: the answer of \<^verbatim>\<open>util.Request\<close>
  to a \<^verbatim>\<open>GET\<close> of a URL (the function is not among the sources), the faults of the
  datastore statements, the clock read by \<^verbatim>\<open>time.Now()\<close> and the clock gorm stamps new
  rows with.
\<close>

record worker_env =
  Request :: "string \<Rightarrow> error + http_reply"
  first_fault :: "error option"
  update_fault :: "error option"
  create_fault :: "error option"
  commit_fault :: "error option"
  time_Now :: time
  gorm_clock :: time

text \<open>
  The two messages of \<^verbatim>\<open>GetUserGamificationScore\<close>: "fetching the user's score failed,
  status code: %d" (a plain error) and "decoding the score response failed" (the prefix of
  a wrapping error).
\<close>

definition msg_status_code :: "nat \<Rightarrow> string" where
  "msg_status_code code =
     [CHR 0xE8, CHR 0x8E, CHR 0xB7, CHR 0xE5, CHR 0x8F, CHR 0x96, CHR 0xE7, CHR 0x94,
      CHR 0xA8, CHR 0xE6, CHR 0x88, CHR 0xB7, CHR 0xE7, CHR 0xA7, CHR 0xAF, CHR 0xE5,
      CHR 0x88, CHR 0x86, CHR 0xE5, CHR 0xA4, CHR 0xB1, CHR 0xE8, CHR 0xB4, CHR 0xA5,
      CHR 0xEF, CHR 0xBC, CHR 0x8C, CHR 0xE7, CHR 0x8A, CHR 0xB6, CHR 0xE6, CHR 0x80,
      CHR 0x81, CHR 0xE7, CHR 0xA0, CHR 0x81, CHR '':'', CHR '' '']
     @ decimal_string code"

definition msg_decode_failed :: string where
  "msg_decode_failed =
     [CHR 0xE8, CHR 0xA7, CHR 0xA3, CHR 0xE6, CHR 0x9E, CHR 0x90, CHR 0xE7, CHR 0x94,
      CHR 0xA8, CHR 0xE6, CHR 0x88, CHR 0xB7, CHR 0xE7, CHR 0xA7, CHR 0xAF, CHR 0xE5,
      CHR 0x88, CHR 0x86, CHR 0xE5, CHR 0x93, CHR 0x8D, CHR 0xE5, CHR 0xBA, CHR 0x94,
      CHR 0xE5, CHR 0xA4, CHR 0xB1, CHR 0xE8, CHR 0xB4, CHR 0xA5]"

text \<open>\<^verbatim>\<open>(*User).GetUserGamificationScore\<close>.\<close>

definition GetUserGamificationScore ::
  "worker_env \<Rightarrow> User \<Rightarrow> error + UserGamificationScoreResponse" where
  "GetUserGamificationScore env u =
     (let url = ''https://linux.do/u/'' @ Username u @ ''.json'' in
      case Request env url of
        Inl err \<Rightarrow> Inl err
      | Inr resp \<Rightarrow>
          if StatusCode resp \<noteq> 200 then Inl (Error (msg_status_code (StatusCode resp)))
          else
            (case Body resp of
               Inl err \<Rightarrow> Inl (Wrapped msg_decode_failed err)
             | Inr response \<Rightarrow> Inr response))"

text \<open>
  The string literals of the worker are Chinese; a Go string is its UTF-8 bytes. The
  order name reads "community score update".
\<close>

definition community_order_name :: string where
  "community_order_name =
     [CHR 0xE7, CHR 0xA4, CHR 0xBE, CHR 0xE5, CHR 0x8C, CHR 0xBA, CHR 0xE7, CHR 0xA7,
      CHR 0xAF, CHR 0xE5, CHR 0x88, CHR 0x86, CHR 0xE6, CHR 0x9B, CHR 0xB4, CHR 0xE6,
      CHR 0x96, CHR 0xB0]"

text \<open>
  \<^verbatim>\<open>fmt.Sprintf("<community score from> %s <updated to> %s<, change> %s", old, new, diff)\<close>
  with the three literal pieces of the format.
\<close>

definition community_remark :: "string \<Rightarrow> string \<Rightarrow> string \<Rightarrow> string" where
  "community_remark old new diff =
     [CHR 0xE7, CHR 0xA4, CHR 0xBE, CHR 0xE5, CHR 0x8C, CHR 0xBA, CHR 0xE7, CHR 0xA7,
      CHR 0xAF, CHR 0xE5, CHR 0x88, CHR 0x86, CHR 0xE4, CHR 0xBB, CHR 0x8E, CHR '' '']
     @ old @
     [CHR '' '', CHR 0xE6, CHR 0x9B, CHR 0xB4, CHR 0xE6, CHR 0x96, CHR 0xB0, CHR 0xE5,
      CHR 0x88, CHR 0xB0, CHR '' '']
     @ new @
     [CHR 0xEF, CHR 0xBC, CHR 0x8C, CHR 0xE5, CHR 0x8F, CHR 0x98, CHR 0xE5, CHR 0x8C,
      CHR 0x96, CHR '' '']
     @ diff"

text \<open>The prefixes of the four \<^verbatim>\<open>fmt.Errorf("...: %w", err)\<close> of the worker.\<close>

definition msg_parse_failed :: string where
  "msg_parse_failed =
     [CHR 0xE8, CHR 0xA7, CHR 0xA3, CHR 0xE6, CHR 0x9E, CHR 0x90, CHR 0xE4, CHR 0xBB,
      CHR 0xBB, CHR 0xE5, CHR 0x8A, CHR 0xA1, CHR 0xE5, CHR 0x8F, CHR 0x82, CHR 0xE6,
      CHR 0x95, CHR 0xB0, CHR 0xE5, CHR 0xA4, CHR 0xB1, CHR 0xE8, CHR 0xB4, CHR 0xA5]"

definition msg_query_user_failed :: "64 word \<Rightarrow> string" where
  "msg_query_user_failed uid =
     [CHR 0xE6, CHR 0x9F, CHR 0xA5, CHR 0xE8, CHR 0xAF, CHR 0xA2, CHR 0xE7, CHR 0x94,
      CHR 0xA8, CHR 0xE6, CHR 0x88, CHR 0xB7, CHR ''I'', CHR ''D'', CHR ''['']
     @ decimal_string (unat uid) @
     [CHR '']'', CHR 0xE5, CHR 0xA4, CHR 0xB1, CHR 0xE8, CHR 0xB4, CHR 0xA5]"

definition msg_update_failed :: "string \<Rightarrow> string" where
  "msg_update_failed username =
     [CHR 0xE6, CHR 0x9B, CHR 0xB4, CHR 0xE6, CHR 0x96, CHR 0xB0, CHR 0xE7, CHR 0x94,
      CHR 0xA8, CHR 0xE6, CHR 0x88, CHR 0xB7, CHR ''['']
     @ username @
     [CHR '']'', CHR 0xE7, CHR 0xA7, CHR 0xAF, CHR 0xE5, CHR 0x88, CHR 0x86, CHR 0xE5,
      CHR 0xA4, CHR 0xB1, CHR 0xE8, CHR 0xB4, CHR 0xA5]"

definition msg_create_failed :: "string \<Rightarrow> string" where
  "msg_create_failed username =
     [CHR 0xE5, CHR 0x88, CHR 0x9B, CHR 0xE5, CHR 0xBB, CHR 0xBA, CHR 0xE7, CHR 0x94,
      CHR 0xA8, CHR 0xE6, CHR 0x88, CHR 0xB7, CHR ''['']
     @ username @
     [CHR '']'', CHR 0xE7, CHR 0xA4, CHR 0xBE, CHR 0xE5, CHR 0x8C, CHR 0xBA, CHR 0xE7,
      CHR 0xA7, CHR 0xAF, CHR 0xE5, CHR 0x88, CHR 0x86, CHR 0xE8, CHR 0xAE, CHR 0xA2,
      CHR 0xE5, CHR 0x8D, CHR 0x95, CHR 0xE5, CHR 0xA4, CHR 0xB1, CHR 0xE8, CHR 0xB4,
      CHR 0xA5]"

text \<open>The \<^verbatim>\<open>model.Order\<close> literal of the worker; the fields it leaves out are zero.\<close>

definition community_order :: "User \<Rightarrow> decimal \<Rightarrow> decimal \<Rightarrow> decimal \<Rightarrow> time \<Rightarrow> Order" where
  "community_order user oldCommunityBalance newCommunityBalance diff now =
     \<lparr>order_row.ID = 0,
      OrderName = community_order_name,
      MerchantOrderNo = [],
      ClientID = [],
      PayerUsername = ''LINUX DO Community'',
      PayeeUsername = Username user,
      Amount = diff,
      order_row.Status = OrderStatusSuccess,
      order_row.Type = OrderTypeCommunity,
      Remark = community_remark (decimal_String oldCommunityBalance)
                 (decimal_String newCommunityBalance) (decimal_String diff),
      TradeTime = now,
      ExpiresAt = now,
      order_row.CreatedAt = 0,
      order_row.UpdatedAt = 0,
      OrderNo = []\<rparr>"

text \<open>The function passed to \<^verbatim>\<open>Transaction\<close>.\<close>

definition update_and_create ::
  "worker_env \<Rightarrow> User \<Rightarrow> decimal \<Rightarrow> decimal \<Rightarrow> decimal \<Rightarrow> time \<Rightarrow> db \<Rightarrow> error + db" where
  "update_and_create env user oldCommunityBalance newCommunityBalance diff now tx =
     (case UpdateColumns (update_fault env) user newCommunityBalance diff tx of
        Inl err \<Rightarrow> Inl (Wrapped (msg_update_failed (Username user)) err)
      | Inr tx1 \<Rightarrow>
          (case Create (create_fault env) (gorm_clock env)
                  (community_order user oldCommunityBalance newCommunityBalance diff now) tx1 of
             Inl err \<Rightarrow> Inl (Wrapped (msg_create_failed (Username user)) err)
           | Inr tx2 \<Rightarrow> Inr tx2))"

text \<open>
  \<^verbatim>\<open>HandleUpdateSingleUserGamificationScore\<close>. The task payload either fails to decode
  (\<open>Inl\<close>) or holds a \<^verbatim>\<open>user_id\<close>. The result is the datastore after the run and the
  returned error (\<open>None\<close> for \<^verbatim>\<open>nil\<close>).
\<close>

definition HandleUpdateSingleUserGamificationScore ::
  "worker_env \<Rightarrow> error + 64 word \<Rightarrow> db \<Rightarrow> db \<times> error option" where
  "HandleUpdateSingleUserGamificationScore env payload d =
     (case payload of
        Inl err \<Rightarrow> (d, Some (Wrapped msg_parse_failed err))
      | Inr UserID \<Rightarrow>
          (case First (first_fault env) UserID d of
             Inl err \<Rightarrow> (d, Some (Wrapped (msg_query_user_failed UserID) err))
           | Inr user \<Rightarrow>
               (case GetUserGamificationScore env user of
                  Inl err \<Rightarrow> (d, Some err)
                | Inr response \<Rightarrow>
                    (let newCommunityBalance = decimal_NewFromInt (GamificationScore response) in
                     if decimal_Equal (TotalCommunity user) newCommunityBalance then (d, None)
                     else
                       (let diff = decimal_Sub newCommunityBalance (TotalCommunity user);
                            oldCommunityBalance = TotalCommunity user;
                            now = time_Now env
                        in Transaction (commit_fault env)
                             (update_and_create env user oldCommunityBalance
                                newCommunityBalance diff now) d)))))"

text \<open>
  The datastore after a committed transaction of the worker for \<open>user\<close> and the new
  balance \<open>new\<close>, written out: the three columns of the user's row, and the inserted
  order row.
\<close>

definition applied :: "worker_env \<Rightarrow> User \<Rightarrow> decimal \<Rightarrow> db \<Rightarrow> db" where
  "applied env user new d =
     d\<lparr>users :=
          map (\<lambda>u. if User.ID u = User.ID user
                   then u\<lparr>TotalCommunity := new,
                          TotalReceive := decimal_Add (TotalReceive u) (decimal_Sub new (TotalCommunity user)),
                          AvailableBalance := decimal_Add (AvailableBalance u) (decimal_Sub new (TotalCommunity user))\<rparr>
                   else u)
            (users d),
        orders :=
          orders d
          @ [(order_columns (community_order user (TotalCommunity user) new
                               (decimal_Sub new (TotalCommunity user)) (time_Now env)))
               \<lparr>order_row.ID := next_order_id (orders d),
                order_row.CreatedAt := gorm_clock env,
                order_row.UpdatedAt := gorm_clock env\<rparr>]\<rparr>"

section \<open>Reconciliation dispatcher\<close>

















section \<open>Example data\<close>

definition example_order :: "64 word \<Rightarrow> string \<Rightarrow> string \<Rightarrow> time \<Rightarrow> order_row" where
  "example_order i payer payee t =
     \<lparr>order_row.ID = i, OrderName = ''order'', MerchantOrderNo = [], ClientID = [],
      PayerUsername = payer, PayeeUsername = payee, Amount = Hundredths 1000,
      order_row.Status = ''success'', order_row.Type = ''transfer'', Remark = [],
      TradeTime = t, ExpiresAt = t, CreatedAt = t, UpdatedAt = t\<rparr>"

definition example_list_env :: list_env where
  "example_list_env =
     \<lparr>orders_table = [example_order 1 ''alice'' ''bob'' 10, example_order 2 ''carol'' ''alice'' 20,
                       example_order 3 ''bob'' ''carol'' 30],
      count_fault = None, find_fault = None, created_at_tie = unat\<rparr>"

definition example_request :: "int \<Rightarrow> int \<Rightarrow> string \<Rightarrow> TransactionListRequest" where
  "example_request p n st =
     \<lparr>TransactionListRequest.Page = p, TransactionListRequest.PageSize = n,
      TransactionListRequest.Type = [], TransactionListRequest.Status = st,
      StartTime = None, EndTime = None\<rparr>"

definition example_user :: "64 word \<Rightarrow> string \<Rightarrow> decimal \<Rightarrow> User" where
  "example_user i name community =
     \<lparr>User.ID = i, Username = name, Nickname = name, AvatarUrl = [], TrustLevel = 2,
      PayScore = 7, PayKey = [], SignKey = name,
      TotalReceive = Hundredths 25000, TotalPayment = Hundredths 4000,
      TotalTransfer = Hundredths 1000, TotalCommunity = community,
      AvailableBalance = Hundredths 20000, IsActive = True, IsAdmin = False,
      LastLoginAt = 500, User.CreatedAt = 100, User.UpdatedAt = 100\<rparr>"

definition example_db :: "decimal \<Rightarrow> db" where
  "example_db community =
     \<lparr>users = [example_user 1 ''alice'' community, example_user 2 ''bob'' (Hundredths 0)],
      orders = []\<rparr>"

definition example_worker_env ::
  "64 word \<Rightarrow> error option \<Rightarrow> error option \<Rightarrow> worker_env" where
  "example_worker_env score update_err create_err =
     \<lparr>Request =
        (\<lambda>url. if url = ''https://linux.do/u/alice.json''
               then Inr \<lparr>StatusCode = 200, Body = Inr \<lparr>GamificationScore = score\<rparr>\<rparr>
               else Inr \<lparr>StatusCode = 404, Body = Inl (Error ''unexpected end of JSON input'')\<rparr>),
      first_fault = None, update_fault = update_err, create_fault = create_err,
      commit_fault = None, time_Now = 1000, gorm_clock = 1001\<rparr>"






section \<open>Display number\<close>

lemma replicate_numeral_unfold: "replicate (numeral k) x = x # replicate (pred_numeral k) x"
  by (simp add: numeral_eq_Suc)

lemma fmt_digits_decimal_string: "fmt_digits u buf = decimal_string u @ buf"
proof (induction u buf rule: fmt_digits.induct)
  case (1 u buf)
  show ?case
  proof (cases "10 \<le> u")
    case True
    have "u - u div 10 * 10 = u mod 10"
      by (simp add: minus_div_mult_eq_mod)
    with True 1 show ?thesis
      by (subst fmt_digits.simps, subst decimal_string.simps) simp
  next
    case False
    then show ?thesis
      by (subst fmt_digits.simps, subst decimal_string.simps) simp
  qed
qed

lemma fmt_zero_fill_replicate:
  "fmt_zero_fill prec buf = replicate (prec - length buf) CHR ''0'' @ buf"
proof (induction prec buf rule: fmt_zero_fill.induct)
  case (1 prec buf)
  show ?case
  proof (cases "length buf < prec")
    case True
    then have "prec - length buf = Suc (prec - Suc (length buf))"
      by simp
    with True 1 show ?thesis
      by (subst fmt_zero_fill.simps) (simp add: replicate_app_Cons_same)
  next
    case False
    then show ?thesis
      by (subst fmt_zero_fill.simps) simp
  qed
qed

lemma Sprintf_018d_pad:
  "Sprintf_018d v = spec_pad (decimal_string (unat v)) 18 CHR ''0''"
  by (simp add: Sprintf_018d_def spec_pad_def fmt_digits_decimal_string
      fmt_zero_fill_replicate)

text \<open>
  C7: the display number of every Order is its ID in decimal, left-padded with \<open>0\<close> to
  18 characters; it is computed when the row is read and is not a stored column (the
  stored columns do not depend on it, and the hook changes none of them). ID 42 gives
  \<open>000000000000000042\<close> and ID 123456789012345678 gives its own 18 digits.
\<close>

theorem C7_display_number:
  "OrderNo (AfterFind ord) = spec_pad (decimal_string (unat (order_row.ID ord))) 18 CHR ''0''
   \<and> OrderNo (scan_order row) = spec_pad (decimal_string (unat (order_row.ID row))) 18 CHR ''0''
   \<and> order_columns (scan_order row) = row
   \<and> order_columns (AfterFind ord) = order_columns ord
   \<and> order_columns (ord\<lparr>OrderNo := s\<rparr>) = order_columns ord
   \<and> OrderNo (AfterFind (ord\<lparr>order_row.ID := 42\<rparr>)) = ''000000000000000042''
   \<and> OrderNo (AfterFind (ord\<lparr>order_row.ID := 123456789012345678\<rparr>)) = ''123456789012345678''"
proof -
  have d1: "decimal_string 42 = ''42''"
    by (simp add: decimal_string.simps digit_byte_def)
  have d2: "decimal_string 123456789012345678 = ''123456789012345678''"
    by (simp add: decimal_string.simps digit_byte_def)
  have ex1: "spec_pad ''42'' 18 CHR ''0'' = ''000000000000000042''"
    by (simp add: spec_pad_def replicate_numeral_unfold)
  have ex2: "spec_pad ''123456789012345678'' 18 CHR ''0'' = ''123456789012345678''"
    by (simp add: spec_pad_def)
  have a: "OrderNo (AfterFind x) = spec_pad (decimal_string (unat (order_row.ID x))) 18 CHR ''0''"
    for x
    by (simp add: AfterFind_def Sprintf_018d_pad)
  have b: "OrderNo (scan_order row) = spec_pad (decimal_string (unat (order_row.ID row))) 18 CHR ''0''"
    by (simp add: scan_order_def a order_row.defs)
  have c: "order_columns (scan_order row) = row"
    by (simp add: scan_order_def AfterFind_def order_columns_def order_row.defs Order.defs)
  have d: "order_columns (AfterFind ord) = order_columns ord"
    by (simp add: AfterFind_def order_columns_def order_row.defs)
  have e: "order_columns (ord\<lparr>OrderNo := s\<rparr>) = order_columns ord"
    by (simp add: order_columns_def order_row.defs)
  have f: "OrderNo (AfterFind (ord\<lparr>order_row.ID := 42\<rparr>)) = ''000000000000000042''"
    by (simp add: a d1 ex1)
  have g: "OrderNo (AfterFind (ord\<lparr>order_row.ID := 123456789012345678\<rparr>))
      = ''123456789012345678''"
    by (simp add: a d2 ex2)
  from a b c d e f g show ?thesis by blast
qed

section \<open>Transaction list: validation and ordering\<close>

lemma validate_PageSize_out_of_range:
  "TransactionListRequest.PageSize req < 1 \<or> 100 < TransactionListRequest.PageSize req
   \<Longrightarrow> validate_request req \<noteq> []"
  by (auto simp: validate_request_def)

lemma ListTransactions_rejects:
  assumes "validate_request req \<noteq> []"
  shows "ListTransactions env username (Inr req)
         = ([], 400, Err (error_Error (ValidationErrors (validate_request req))))"
  using assms by (simp add: ListTransactions_def ShouldBindJSON_def split: list.splits)

lemma ListTransactions_accepts:
  assumes "validate_request req = []" "count_fault env = None" "find_fault env = None"
  shows "ListTransactions env username (Inr req) =
     ([CountCall, FindCall (int64_wrap ((TransactionListRequest.Page req - 1)
                                          * TransactionListRequest.PageSize req)) (TransactionListRequest.PageSize req)], 200,
       OK \<lparr>Total = int (length (filter (baseQuery username req) (orders_table env))),
            Page = TransactionListRequest.Page req,
            PageSize = TransactionListRequest.PageSize req,
            Orders = map scan_order
                           (take (nat (TransactionListRequest.PageSize req))
                              (drop (nat (int64_wrap ((TransactionListRequest.Page req - 1)
                                          * TransactionListRequest.PageSize req)))
                                 (order_by_created_at_desc (created_at_tie env)
                                    (filter (baseQuery username req) (orders_table env)))))\<rparr>)"
  using assms by (simp add: ListTransactions_def ShouldBindJSON_def Let_def)

lemma ListTransactions_200:
  assumes "ListTransactions env username (Inr req) = (calls, 200, resp)"
  shows "validate_request req = [] \<and> count_fault env = None \<and> find_fault env = None"
  using assms
  by (auto simp: ListTransactions_def ShouldBindJSON_def Let_def
      split: list.splits option.splits)

lemma CreatedAt_scan_order: "CreatedAt (scan_order row) = CreatedAt row"
  by (simp add: scan_order_def AfterFind_def order_row.defs)

lemma scan_order_parties:
  "PayeeUsername (scan_order row) = PayeeUsername row"
  "PayerUsername (scan_order row) = PayerUsername row"
  by (simp_all add: scan_order_def AfterFind_def order_row.defs)

lemma order_by_created_at_desc_sorted:
  "sorted_wrt (\<lambda>a b. CreatedAt b \<le> CreatedAt a) (order_by_created_at_desc tie rows)"
proof -
  let ?rows = "sort_key (\<lambda>row. tie (order_row.ID row)) rows"
  have "sorted (map CreatedAt (sort_key CreatedAt ?rows))" by simp
  then have "sorted_wrt (\<lambda>a b. CreatedAt a \<le> CreatedAt b) (sort_key CreatedAt ?rows)"
    by (simp add: sorted_wrt_map)
  then show ?thesis
    by (simp add: order_by_created_at_desc_def sorted_wrt_rev)
qed

lemma set_order_by_created_at_desc: "set (order_by_created_at_desc tie rows) = set rows"
  by (simp add: order_by_created_at_desc_def)

lemma sorted_desc_hd_greatest:
  assumes "sorted_wrt (\<lambda>a b. CreatedAt b \<le> CreatedAt a) rows" and "row \<in> set rows"
  shows "CreatedAt row \<le> CreatedAt (hd rows)"
  using assms by (cases rows) auto

lemma page_sorted:
  "sorted_wrt (\<lambda>a b. CreatedAt b \<le> CreatedAt a)
     (map scan_order (take n (drop k (order_by_created_at_desc tie rows))))"
proof -
  have "sorted_wrt (\<lambda>a b. CreatedAt b \<le> CreatedAt a) (take n (drop k (order_by_created_at_desc tie rows)))"
    by (intro sorted_wrt_take sorted_wrt_drop order_by_created_at_desc_sorted)
  then show ?thesis
    by (simp add: sorted_wrt_map CreatedAt_scan_order)
qed

lemma int64_wrap_0: "int64_wrap 0 = 0"
  by (simp add: int64_wrap_def)

lemma first_page_most_recent:
  assumes "0 < n" and "row \<in> set rows"
  shows "map scan_order (take n (drop 0 (order_by_created_at_desc tie rows))) \<noteq> []
    \<and> CreatedAt row \<le> CreatedAt (hd (map scan_order (take n (drop 0 (order_by_created_at_desc tie rows)))))"
proof -
  let ?S = "order_by_created_at_desc tie rows"
  from assms have ne: "?S \<noteq> []"
    using set_order_by_created_at_desc [of tie rows] by auto
  with assms have "take n ?S \<noteq> []" by simp
  moreover from ne assms have "hd (take n ?S) = hd ?S" by (cases ?S) (auto simp: take_Cons')
  moreover have "CreatedAt row \<le> CreatedAt (hd ?S)"
    using sorted_desc_hd_greatest [OF order_by_created_at_desc_sorted] assms
    by (simp add: set_order_by_created_at_desc)
  ultimately show ?thesis
    by (simp add: hd_map CreatedAt_scan_order)
qed

lemma page_of_matching:
  assumes "ord \<in> set (map scan_order
             (take n (drop k (order_by_created_at_desc tie
                (filter (baseQuery username req) rows)))))"
  shows "(PayeeUsername ord = username \<or> PayerUsername ord = username)
    \<and> (\<exists>row \<in> set rows. ord = scan_order row)"
proof -
  from assms obtain row
    where ord: "ord = scan_order row"
      and "row \<in> set (take n (drop k (order_by_created_at_desc tie
                (filter (baseQuery username req) rows))))"
    by auto
  then have "row \<in> set (order_by_created_at_desc tie (filter (baseQuery username req) rows))"
    by (meson in_set_takeD in_set_dropD)
  then have row: "row \<in> set rows" and q: "baseQuery username req row"
    by (simp_all add: set_order_by_created_at_desc)
  from q have "PayeeUsername row = username \<or> PayerUsername row = username"
    by (simp add: baseQuery_def)
  with ord row show ?thesis
    by (auto simp: scan_order_parties)
qed

text \<open>
  C8: a page size below 1 or above 100 (0 and 101 in particular) is answered with status
  400 and the validation error without any statement being sent to the datastore; a
  valid request on a healthy datastore is answered with status 200; and every page
  returned with status 200 is ordered by creation time descending and holds only stored
  orders of which the requesting user is the payee or the payer. Page 1 of a request
  without filters, for a user who has an order, is not empty and starts with an order
  of that user that was created no earlier than any other order of that user: the
  user's most recently created order.
\<close>

theorem C8_pagination_boundary:
  "(TransactionListRequest.PageSize req < 1 \<or> 100 < TransactionListRequest.PageSize req \<longrightarrow>
      (\<exists>fs. fs \<noteq> [] \<and> ListTransactions env username (Inr req)
                = ([], 400, Err (error_Error (ValidationErrors fs)))))
   \<and> (validate_request req = [] \<and> count_fault env = None \<and> find_fault env = None \<longrightarrow>
        (\<exists>calls resp. ListTransactions env username (Inr req) = (calls, 200, resp)))
   \<and> (ListTransactions env username (Inr req) = (calls, 200, resp) \<longrightarrow>
        (\<exists>page. Data resp = Some page
           \<and> sorted_wrt (\<lambda>a b. CreatedAt b \<le> CreatedAt a) (Orders page)
           \<and> (\<forall>ord \<in> set (Orders page).
                 (PayeeUsername ord = username \<or> PayerUsername ord = username)
                 \<and> (\<exists>row \<in> set (orders_table env). ord = scan_order row))
           \<and> (TransactionListRequest.Page req = 1 \<and> TransactionListRequest.Type req = []
                \<and> TransactionListRequest.Status req = []
                \<and> StartTime req = None \<and> EndTime req = None \<longrightarrow>
              (\<forall>row \<in> set (orders_table env).
                 PayeeUsername row = username \<or> PayerUsername row = username \<longrightarrow>
                 Orders page \<noteq> []
                 \<and> (PayeeUsername (hd (Orders page)) = username
                      \<or> PayerUsername (hd (Orders page)) = username)
                 \<and> (\<exists>first \<in> set (orders_table env). hd (Orders page) = scan_order first)
                 \<and> CreatedAt row \<le> CreatedAt (hd (Orders page))))))"
proof (intro conjI impI)
  assume "TransactionListRequest.PageSize req < 1 \<or> 100 < TransactionListRequest.PageSize req"
  then have "validate_request req \<noteq> []"
    by (rule validate_PageSize_out_of_range)
  then show "\<exists>fs. fs \<noteq> [] \<and> ListTransactions env username (Inr req)
                = ([], 400, Err (error_Error (ValidationErrors fs)))"
    using ListTransactions_rejects by blast
next
  assume "validate_request req = [] \<and> count_fault env = None \<and> find_fault env = None"
  then show "\<exists>calls resp. ListTransactions env username (Inr req) = (calls, 200, resp)"
    using ListTransactions_accepts by blast
next
  assume run: "ListTransactions env username (Inr req) = (calls, 200, resp)"
  let ?matching = "filter (baseQuery username req) (orders_table env)"
  let ?offset = "nat (int64_wrap ((TransactionListRequest.Page req - 1)
                                          * TransactionListRequest.PageSize req))"
  let ?n = "nat (TransactionListRequest.PageSize req)"
  let ?orders = "map scan_order (take ?n (drop ?offset (order_by_created_at_desc (created_at_tie env) ?matching)))"
  let ?page = "\<lparr>Total = int (length ?matching), Page = TransactionListRequest.Page req,
                PageSize = TransactionListRequest.PageSize req, Orders = ?orders\<rparr>"
  from ListTransactions_200 [OF run]
  have ok: "validate_request req = []" "count_fault env = None" "find_fault env = None"
    by simp_all
  from ListTransactions_accepts [OF ok, of username] run
  have resp: "Data resp = Some ?page"
    by (simp add: OK_def)
  have sorted: "sorted_wrt (\<lambda>a b. CreatedAt b \<le> CreatedAt a) (Orders ?page)"
    by (simp add: page_sorted)
  have members: "\<forall>ord \<in> set (Orders ?page).
      (PayeeUsername ord = username \<or> PayerUsername ord = username)
      \<and> (\<exists>row \<in> set (orders_table env). ord = scan_order row)"
    using page_of_matching [of _ ?n ?offset "created_at_tie env" username req "orders_table env"]
    by simp
  have first: "Orders ?page \<noteq> []
      \<and> (PayeeUsername (hd (Orders ?page)) = username
           \<or> PayerUsername (hd (Orders ?page)) = username)
      \<and> (\<exists>first \<in> set (orders_table env). hd (Orders ?page) = scan_order first)
      \<and> CreatedAt row \<le> CreatedAt (hd (Orders ?page))"
    if p1: "TransactionListRequest.Page req = 1 \<and> TransactionListRequest.Type req = []
              \<and> TransactionListRequest.Status req = []
              \<and> StartTime req = None \<and> EndTime req = None"
      and row: "row \<in> set (orders_table env)"
      and mine: "PayeeUsername row = username \<or> PayerUsername row = username" for row
  proof -
    from ok(1) have "0 < ?n"
      by (auto simp: validate_request_def split: if_splits)
    moreover from p1 row mine have "row \<in> set ?matching"
      by (simp add: baseQuery_def)
    moreover from p1 have "?offset = 0"
      by (simp add: int64_wrap_0)
    ultimately have recent: "Orders ?page \<noteq> [] \<and> CreatedAt row \<le> CreatedAt (hd (Orders ?page))"
      using first_page_most_recent [of ?n row ?matching "created_at_tie env"] by simp
    then have "hd (Orders ?page) \<in> set (Orders ?page)"
      by (intro hd_in_set) simp
    with members recent show ?thesis
      by blast
  qed
  from resp sorted members first
  show "\<exists>page. Data resp = Some page
           \<and> sorted_wrt (\<lambda>a b. CreatedAt b \<le> CreatedAt a) (Orders page)
           \<and> (\<forall>ord \<in> set (Orders page).
                 (PayeeUsername ord = username \<or> PayerUsername ord = username)
                 \<and> (\<exists>row \<in> set (orders_table env). ord = scan_order row))
           \<and> (TransactionListRequest.Page req = 1 \<and> TransactionListRequest.Type req = []
                \<and> TransactionListRequest.Status req = []
                \<and> StartTime req = None \<and> EndTime req = None \<longrightarrow>
              (\<forall>row \<in> set (orders_table env).
                 PayeeUsername row = username \<or> PayerUsername row = username \<longrightarrow>
                 Orders page \<noteq> []
                 \<and> (PayeeUsername (hd (Orders page)) = username
                      \<or> PayerUsername (hd (Orders page)) = username)
                 \<and> (\<exists>first \<in> set (orders_table env). hd (Orders page) = scan_order first)
                 \<and> CreatedAt row \<le> CreatedAt (hd (Orders page))))"
    by (intro exI [of _ ?page] conjI) blast+
qed

theorem C8_pagination_boundary_witness:
  "(\<exists>fs. fs \<noteq> [] \<and> ListTransactions example_list_env ''alice'' (Inr (example_request 1 0 []))
                = ([], 400, Err (error_Error (ValidationErrors fs))))
   \<and> (\<exists>fs. fs \<noteq> [] \<and> ListTransactions example_list_env ''alice'' (Inr (example_request 1 101 []))
                = ([], 400, Err (error_Error (ValidationErrors fs))))
   \<and> (\<exists>calls resp page.
         ListTransactions example_list_env ''alice'' (Inr (example_request 1 10 [])) = (calls, 200, resp)
         \<and> Data resp = Some page
         \<and> sorted_wrt (\<lambda>a b. CreatedAt b \<le> CreatedAt a) (Orders page)
         \<and> Orders page \<noteq> []
         \<and> hd (Orders page) = scan_order (example_order 2 ''carol'' ''alice'' 20)
         \<and> CreatedAt (example_order 1 ''alice'' ''bob'' 10) \<le> CreatedAt (hd (Orders page))
         \<and> CreatedAt (hd (Orders page)) < CreatedAt (example_order 3 ''bob'' ''carol'' 30))"
proof -
  let ?o1 = "example_order 1 ''alice'' ''bob'' 10"
  let ?o2 = "example_order 2 ''carol'' ''alice'' 20"
  let ?o3 = "example_order 3 ''bob'' ''carol'' 30"
  have small: "TransactionListRequest.PageSize (example_request 1 0 []) < 1"
    and large: "100 < TransactionListRequest.PageSize (example_request 1 101 [])"
    by (simp_all add: example_request_def)
  have valid: "validate_request (example_request 1 10 []) = []
      \<and> count_fault example_list_env = None \<and> find_fault example_list_env = None"
    by (simp add: example_request_def validate_request_def example_list_env_def)
  have nofilter: "TransactionListRequest.Page (example_request 1 10 []) = 1
      \<and> TransactionListRequest.Type (example_request 1 10 []) = []
      \<and> TransactionListRequest.Status (example_request 1 10 []) = []
      \<and> StartTime (example_request 1 10 []) = None \<and> EndTime (example_request 1 10 []) = None"
    by (simp add: example_request_def)
  have table: "set (orders_table example_list_env) = {?o1, ?o2, ?o3}"
    by (simp add: example_list_env_def)
  have mine: "PayeeUsername ?o1 = ''alice'' \<or> PayerUsername ?o1 = ''alice''"
      "PayeeUsername ?o2 = ''alice'' \<or> PayerUsername ?o2 = ''alice''"
    and other: "\<not> (PayeeUsername ?o3 = ''alice'' \<or> PayerUsername ?o3 = ''alice'')"
    and times: "CreatedAt ?o1 = 10" "CreatedAt ?o2 = 20" "CreatedAt ?o3 = 30"
    by (simp_all add: example_order_def)
  from valid obtain calls resp
    where run: "ListTransactions example_list_env ''alice'' (Inr (example_request 1 10 []))
        = (calls, 200, resp)"
    using C8_pagination_boundary [of "example_request 1 10 []" example_list_env "''alice''"]
    by blast
  from run nofilter obtain page
    where page: "Data resp = Some page"
      "sorted_wrt (\<lambda>a b. CreatedAt b \<le> CreatedAt a) (Orders page)"
      and first: "\<forall>row \<in> set (orders_table example_list_env).
         PayeeUsername row = ''alice'' \<or> PayerUsername row = ''alice'' \<longrightarrow>
         Orders page \<noteq> []
         \<and> (PayeeUsername (hd (Orders page)) = ''alice''
              \<or> PayerUsername (hd (Orders page)) = ''alice'')
         \<and> (\<exists>first \<in> set (orders_table example_list_env). hd (Orders page) = scan_order first)
         \<and> CreatedAt row \<le> CreatedAt (hd (Orders page))"
    using C8_pagination_boundary
      [of "example_request 1 10 []" example_list_env "''alice''" calls resp]
    by blast
  from first [rule_format, of ?o2] mine(2)
  have ne: "Orders page \<noteq> []"
    and hd_mine: "PayeeUsername (hd (Orders page)) = ''alice''
              \<or> PayerUsername (hd (Orders page)) = ''alice''"
    and hd_row: "\<exists>first \<in> {?o1, ?o2, ?o3}. hd (Orders page) = scan_order first"
    and hd_recent: "20 \<le> CreatedAt (hd (Orders page))"
    by (simp_all add: table times)
  from hd_row hd_mine hd_recent other times
  have hd: "hd (Orders page) = scan_order ?o2"
    by (auto simp: scan_order_parties CreatedAt_scan_order)
  then have "CreatedAt ?o1 \<le> CreatedAt (hd (Orders page))"
      "CreatedAt (hd (Orders page)) < CreatedAt ?o3"
    by (simp_all add: CreatedAt_scan_order times)
  with run page ne hd
  have "\<exists>calls resp page.
         ListTransactions example_list_env ''alice'' (Inr (example_request 1 10 [])) = (calls, 200, resp)
         \<and> Data resp = Some page
         \<and> sorted_wrt (\<lambda>a b. CreatedAt b \<le> CreatedAt a) (Orders page)
         \<and> Orders page \<noteq> []
         \<and> hd (Orders page) = scan_order ?o2
         \<and> CreatedAt ?o1 \<le> CreatedAt (hd (Orders page))
         \<and> CreatedAt (hd (Orders page)) < CreatedAt ?o3"
    by blast
  with small large show ?thesis
    using C8_pagination_boundary [of "example_request 1 0 []" example_list_env "''alice''"]
      C8_pagination_boundary [of "example_request 1 101 []" example_list_env "''alice''"]
    by blast
qed





section \<open>Single-user reconciliation worker: properties\<close>

lemma find_map_same_key:
  assumes "\<And>x. P (f x) = P x"
  shows "find P (map f xs) = map_option f (find P xs)"
  using assms by (induction xs) auto

lemma First_Inr:
  "First fault uid d = Inr user \<longleftrightarrow> fault = None \<and> find (\<lambda>u. User.ID u = uid) (users d) = Some user"
  by (auto simp: First_def ErrRecordNotFound_def split: option.splits)

lemma First_ID: "First fault uid d = Inr user \<Longrightarrow> User.ID user = uid"
  by (auto simp: First_Inr dest: find_Some_iff [THEN iffD1])

lemma worker_applies:
  assumes "First (first_fault env) uid d = Inr user"
    and "GetUserGamificationScore env user = Inr response"
    and "\<not> decimal_Equal (TotalCommunity user) (decimal_NewFromInt (GamificationScore response))"
    and "update_fault env = None" "create_fault env = None" "commit_fault env = None"
  shows "HandleUpdateSingleUserGamificationScore env (Inr uid) d
         = (applied env user (decimal_NewFromInt (GamificationScore response)) d, None)"
  using assms
  by (simp add: HandleUpdateSingleUserGamificationScore_def Let_def Transaction_def
      update_and_create_def UpdateColumns_def Create_def applied_def)


lemma applied_orders:
  "orders (applied env user new d) =
     orders d
     @ [(order_columns (community_order user (TotalCommunity user) new
                          (decimal_Sub new (TotalCommunity user)) (time_Now env)))
          \<lparr>order_row.ID := next_order_id (orders d),
           order_row.CreatedAt := gorm_clock env,
           order_row.UpdatedAt := gorm_clock env\<rparr>]"
  by (simp add: applied_def)

lemma applied_First:
  assumes "First None uid d = Inr user"
  shows "First None uid (applied env user new d)
         = Inr (user\<lparr>TotalCommunity := new,
                      TotalReceive := decimal_Add (TotalReceive user) (decimal_Sub new (TotalCommunity user)),
                      AvailableBalance := decimal_Add (AvailableBalance user) (decimal_Sub new (TotalCommunity user))\<rparr>)"
proof -
  from assms have found: "find (\<lambda>u. User.ID u = uid) (users d) = Some user"
    by (simp add: First_Inr)
  from assms have uid: "User.ID user = uid"
    by (rule First_ID)
  let ?f = "\<lambda>u. if User.ID u = User.ID user
                   then u\<lparr>TotalCommunity := new,
                          TotalReceive := decimal_Add (TotalReceive u) (decimal_Sub new (TotalCommunity user)),
                          AvailableBalance := decimal_Add (AvailableBalance u) (decimal_Sub new (TotalCommunity user))\<rparr>
                   else u"
  have "find (\<lambda>u. User.ID u = uid) (map ?f (users d)) = map_option ?f (find (\<lambda>u. User.ID u = uid) (users d))"
    by (rule find_map_same_key) simp
  with found uid show ?thesis
    by (simp add: First_def applied_def)
qed

lemma applied_other_users:
  "filter (\<lambda>u. User.ID u \<noteq> User.ID user) (users (applied env user new d))
   = filter (\<lambda>u. User.ID u \<noteq> User.ID user) (users d)"
proof -
  have "filter (\<lambda>u. User.ID u \<noteq> i) (map (\<lambda>u. if User.ID u = i then g u else u) xs)
        = filter (\<lambda>u. User.ID u \<noteq> i) xs" if "\<And>u. User.ID (g u) = User.ID u" for i g and xs :: "User list"
    using that by (induction xs) auto
  then show ?thesis
    by (simp add: applied_def)
qed

lemma community_order_fields:
  "order_row.Status (order_columns (community_order user old new diff now)) = OrderStatusSuccess"
  "order_row.Type (order_columns (community_order user old new diff now)) = OrderTypeCommunity"
  "PayerUsername (order_columns (community_order user old new diff now)) = ''LINUX DO Community''"
  "PayeeUsername (order_columns (community_order user old new diff now)) = Username user"
  "OrderName (order_columns (community_order user old new diff now)) = community_order_name"
  "Amount (order_columns (community_order user old new diff now)) = diff"
  "TradeTime (order_columns (community_order user old new diff now)) = now"
  "ExpiresAt (order_columns (community_order user old new diff now)) = now"
  "Remark (order_columns (community_order user old new diff now))
     = community_remark (decimal_String old) (decimal_String new) (decimal_String diff)"
  by (simp_all add: community_order_def order_columns_def order_row.defs)

lemma NewFromInt_numeral_values:
  "decimal_NewFromInt 135 = Hundredths 13500"
  "decimal_NewFromInt 100 = Hundredths 10000"
  "decimal_NewFromInt 35 = Hundredths 3500"
  "decimal_NewFromInt 50 = Hundredths 5000"
  "decimal_NewFromInt 40 = Hundredths 4000"
  "decimal_NewFromInt 10 = Hundredths 1000"
  "decimal_NewFromInt (- 10) = Hundredths (- 1000)"
  by (simp_all add: decimal_NewFromInt_def)

text \<open>
  C1: for a user whose stored \<open>total_community\<close> is 100.00 and whose observed score is
  135, a run of the worker that meets no failure returns \<open>nil\<close>, appends exactly one
  order, of type community and amount 35.00, sets \<open>total_community\<close> to 135.00, adds
  35.00 to \<open>total_receive\<close> and to \<open>available_balance\<close>, and changes no other field of
  the user (\<open>total_payment\<close>, \<open>total_transfer\<close>, \<open>pay_score\<close> among them) and no
  other user.
\<close>

theorem C1_delta_correctness:
  assumes "First (first_fault env) uid d = Inr user"
    and "GetUserGamificationScore env user = Inr response"
    and "GamificationScore response = 135"
    and "TotalCommunity user = decimal_NewFromInt 100"
    and "update_fault env = None" and "create_fault env = None" and "commit_fault env = None"
  shows "\<exists>d' ord user'.
           HandleUpdateSingleUserGamificationScore env (Inr uid) d = (d', None)
           \<and> orders d' = orders d @ [ord]
           \<and> order_row.Type ord = OrderTypeCommunity
           \<and> Amount ord = decimal_NewFromInt 35
           \<and> PayeeUsername ord = Username user
           \<and> First None uid d' = Inr user'
           \<and> user' = user\<lparr>TotalCommunity := decimal_NewFromInt 135,
                            TotalReceive := decimal_Add (TotalReceive user) (decimal_NewFromInt 35),
                            AvailableBalance :=
                              decimal_Add (AvailableBalance user) (decimal_NewFromInt 35)\<rparr>
           \<and> TotalPayment user' = TotalPayment user
           \<and> TotalTransfer user' = TotalTransfer user
           \<and> PayScore user' = PayScore user
           \<and> filter (\<lambda>u. User.ID u \<noteq> uid) (users d') = filter (\<lambda>u. User.ID u \<noteq> uid) (users d)"
proof -
  let ?new = "decimal_NewFromInt (GamificationScore response)"
  from assms(3,4) have neq: "\<not> decimal_Equal (TotalCommunity user) ?new"
    and diff: "decimal_Sub (decimal_NewFromInt 135) (TotalCommunity user) = decimal_NewFromInt 35"
    and new: "?new = decimal_NewFromInt 135"
    by (simp_all add: NewFromInt_numeral_values)
  from assms(1) have first: "First None uid d = Inr user"
    by (simp add: First_Inr)
  from assms(1) have uid: "User.ID user = uid"
    by (rule First_ID)
  have run: "HandleUpdateSingleUserGamificationScore env (Inr uid) d = (applied env user ?new d, None)"
    using assms(1,2) neq assms(5-7) by (rule worker_applies)
  show ?thesis
    using run applied_First [OF first, of env ?new] applied_other_users [of user env ?new d]
    by (simp add: applied_orders community_order_fields diff new uid)
qed


lemma example_run_facts:
  "First (first_fault (example_worker_env score uf cf)) 1 (example_db community)
     = Inr (example_user 1 ''alice'' community)"
  "GetUserGamificationScore (example_worker_env score uf cf) (example_user 1 ''alice'' community)
     = Inr \<lparr>GamificationScore = score\<rparr>"
  "update_fault (example_worker_env score uf cf) = uf"
  "create_fault (example_worker_env score uf cf) = cf"
  "commit_fault (example_worker_env score uf cf) = None"
  "TotalCommunity (example_user 1 ''alice'' community) = community"
  "orders (example_db community) = []"
  by (simp_all add: First_def example_worker_env_def example_db_def example_user_def
      GetUserGamificationScore_def)

theorem C1_delta_correctness_witness:
  "\<exists>d' ord user'.
     HandleUpdateSingleUserGamificationScore (example_worker_env 135 None None) (Inr 1)
       (example_db (decimal_NewFromInt 100)) = (d', None)
     \<and> orders d' = [ord]
     \<and> order_row.Type ord = OrderTypeCommunity
     \<and> Amount ord = decimal_NewFromInt 35
     \<and> First None 1 d' = Inr user'
     \<and> TotalCommunity user' = decimal_NewFromInt 135
     \<and> TotalReceive user' = Hundredths 28500
     \<and> AvailableBalance user' = Hundredths 23500
     \<and> TotalPayment user' = Hundredths 4000
     \<and> TotalTransfer user' = Hundredths 1000"
proof -
  have score: "GamificationScore \<lparr>GamificationScore = 135\<rparr> = 135"
    by simp
  show ?thesis
    using C1_delta_correctness [OF example_run_facts(1) example_run_facts(2) score
        example_run_facts(6) example_run_facts(3) example_run_facts(4) example_run_facts(5)]
    by (auto simp: example_run_facts(7) example_user_def NewFromInt_numeral_values)
qed

lemma errors_Is_refl: "errors_Is e e"
  by (cases e) simp_all

lemma worker_update_fails:
  assumes "First (first_fault env) uid d = Inr user"
    and "GetUserGamificationScore env user = Inr response"
    and "\<not> decimal_Equal (TotalCommunity user) (decimal_NewFromInt (GamificationScore response))"
    and "update_fault env = Some e"
  shows "HandleUpdateSingleUserGamificationScore env (Inr uid) d
         = (d, Some (Wrapped (msg_update_failed (Username user)) e))"
  using assms
  by (simp add: HandleUpdateSingleUserGamificationScore_def Let_def Transaction_def
      update_and_create_def UpdateColumns_def)

lemma worker_create_fails:
  assumes "First (first_fault env) uid d = Inr user"
    and "GetUserGamificationScore env user = Inr response"
    and "\<not> decimal_Equal (TotalCommunity user) (decimal_NewFromInt (GamificationScore response))"
    and "update_fault env = None" and "create_fault env = Some e"
  shows "HandleUpdateSingleUserGamificationScore env (Inr uid) d
         = (d, Some (Wrapped (msg_create_failed (Username user)) e))"
  using assms
  by (simp add: HandleUpdateSingleUserGamificationScore_def Let_def Transaction_def
      update_and_create_def UpdateColumns_def Create_def)

lemma Transaction_error_unchanged:
  "Transaction cf fc d = (d', Some err) \<Longrightarrow> d' = d"
  by (auto simp: Transaction_def split: sum.splits option.splits)

lemma worker_error_unchanged:
  assumes "HandleUpdateSingleUserGamificationScore env payload d = (d', Some err)"
  shows "d' = d"
  using assms
  by (auto simp: HandleUpdateSingleUserGamificationScore_def Let_def
      split: sum.splits if_splits dest: Transaction_error_unchanged)

text \<open>
  C2: when the worker reaches its transaction and the balance update fails, or the update
  succeeds and the insertion of the order fails, the datastore after the run is the
  datastore before it (users and orders), and the returned error wraps the datastore's
  error (\<open>errors.Is\<close> finds it).
\<close>

theorem C2_atomicity:
  assumes "First (first_fault env) uid d = Inr user"
    and "GetUserGamificationScore env user = Inr response"
    and "\<not> decimal_Equal (TotalCommunity user) (decimal_NewFromInt (GamificationScore response))"
    and "update_fault env = Some e \<or> (update_fault env = None \<and> create_fault env = Some e)"
  shows "\<exists>err. HandleUpdateSingleUserGamificationScore env (Inr uid) d = (d, Some err)
           \<and> errors_Is err e
           \<and> err = Wrapped (if update_fault env = Some e then msg_update_failed (Username user)
                            else msg_create_failed (Username user)) e"
proof (cases "update_fault env = Some e")
  case True
  with assms(1-3) show ?thesis
    by (simp add: worker_update_fails errors_Is_refl)
next
  case False
  with assms(4) have "update_fault env = None" and "create_fault env = Some e"
    by simp_all
  with assms(1-3) show ?thesis
    by (simp add: worker_create_fails errors_Is_refl)
qed

theorem C2_atomicity_witness:
  "(\<exists>err. HandleUpdateSingleUserGamificationScore
            (example_worker_env 135 (Some (Error ''connection reset'')) None) (Inr 1)
            (example_db (decimal_NewFromInt 100))
          = (example_db (decimal_NewFromInt 100), Some err)
        \<and> errors_Is err (Error ''connection reset''))
   \<and> (\<exists>err. HandleUpdateSingleUserGamificationScore
            (example_worker_env 135 None (Some (Error ''disk full''))) (Inr 1)
            (example_db (decimal_NewFromInt 100))
          = (example_db (decimal_NewFromInt 100), Some err)
        \<and> errors_Is err (Error ''disk full''))"
proof -
  have neq: "\<not> decimal_Equal (TotalCommunity (example_user 1 ''alice'' (decimal_NewFromInt 100)))
               (decimal_NewFromInt (GamificationScore \<lparr>GamificationScore = 135\<rparr>))"
    by (simp add: example_user_def NewFromInt_numeral_values)
  have f1: "update_fault (example_worker_env 135 (Some (Error ''connection reset'')) None)
              = Some (Error ''connection reset'')
            \<or> (update_fault (example_worker_env 135 (Some (Error ''connection reset'')) None) = None
               \<and> create_fault (example_worker_env 135 (Some (Error ''connection reset'')) None)
                   = Some (Error ''connection reset''))"
    by (simp add: example_run_facts)
  have f2: "update_fault (example_worker_env 135 None (Some (Error ''disk full'')))
              = Some (Error ''disk full'')
            \<or> (update_fault (example_worker_env 135 None (Some (Error ''disk full''))) = None
               \<and> create_fault (example_worker_env 135 None (Some (Error ''disk full'')))
                   = Some (Error ''disk full''))"
    by (simp add: example_run_facts)
  show ?thesis
    using C2_atomicity [OF example_run_facts(1) example_run_facts(2) neq f1]
      C2_atomicity [OF example_run_facts(1) example_run_facts(2) neq f2]
    by blast
qed


lemma worker_unchanged_score:
  assumes "First (first_fault env) uid d = Inr user"
    and "GetUserGamificationScore env user = Inr response"
    and "decimal_Equal (TotalCommunity user) (decimal_NewFromInt (GamificationScore response))"
  shows "HandleUpdateSingleUserGamificationScore env (Inr uid) d = (d, None)"
  using assms by (simp add: HandleUpdateSingleUserGamificationScore_def)

lemma decimal_Equal_iff: "decimal_Equal a b \<longleftrightarrow> a = b"
  by (cases a; cases b) simp

lemma worker_success_cases:
  assumes "HandleUpdateSingleUserGamificationScore env (Inr uid) d = (d', None)"
  shows "\<exists>user response.
           First (first_fault env) uid d = Inr user
           \<and> GetUserGamificationScore env user = Inr response
           \<and> (d' = d \<and> TotalCommunity user = decimal_NewFromInt (GamificationScore response)
               \<or> d' = applied env user (decimal_NewFromInt (GamificationScore response)) d)"
  using assms
  by (auto simp: HandleUpdateSingleUserGamificationScore_def Let_def Transaction_def
      update_and_create_def UpdateColumns_def Create_def applied_def decimal_Equal_iff
      split: sum.splits if_splits option.splits)

text \<open>
  C3: when the observed score, as a decimal, equals the stored \<open>total_community\<close>, the
  worker returns \<open>nil\<close> and leaves the datastore as it is (no order, no balance change);
  hence after a run that returned \<open>nil\<close>, a second run for the same user with the same
  answers of the score source returns \<open>nil\<close> and changes nothing.
\<close>

theorem C3_idempotence:
  "(First (first_fault env) uid d = Inr user
      \<and> GetUserGamificationScore env user = Inr response
      \<and> decimal_Equal (TotalCommunity user) (decimal_NewFromInt (GamificationScore response))
    \<longrightarrow> HandleUpdateSingleUserGamificationScore env (Inr uid) d = (d, None))
   \<and> (HandleUpdateSingleUserGamificationScore env (Inr uid) d = (d1, None)
      \<and> Request env2 = Request env \<and> first_fault env2 = None
    \<longrightarrow> HandleUpdateSingleUserGamificationScore env2 (Inr uid) d1 = (d1, None))"
proof (intro conjI impI)
  assume "First (first_fault env) uid d = Inr user
      \<and> GetUserGamificationScore env user = Inr response
      \<and> decimal_Equal (TotalCommunity user) (decimal_NewFromInt (GamificationScore response))"
  then show "HandleUpdateSingleUserGamificationScore env (Inr uid) d = (d, None)"
    by (simp add: worker_unchanged_score)
next
  assume a: "HandleUpdateSingleUserGamificationScore env (Inr uid) d = (d1, None)
      \<and> Request env2 = Request env \<and> first_fault env2 = None"
  then obtain user response
    where first: "First (first_fault env) uid d = Inr user"
      and score: "GetUserGamificationScore env user = Inr response"
      and d1: "d1 = d \<and> TotalCommunity user = decimal_NewFromInt (GamificationScore response)
               \<or> d1 = applied env user (decimal_NewFromInt (GamificationScore response)) d"
    using worker_success_cases by blast
  let ?new = "decimal_NewFromInt (GamificationScore response)"
  from first have first0: "First None uid d = Inr user"
    by (simp add: First_Inr)
  from d1 obtain user1
    where first1: "First None uid d1 = Inr user1"
      and name1: "Username user1 = Username user"
      and total1: "TotalCommunity user1 = ?new"
  proof
    assume "d1 = d \<and> TotalCommunity user = ?new"
    with first0 that show ?thesis by blast
  next
    assume "d1 = applied env user ?new d"
    with applied_First [OF first0, of env ?new] that show ?thesis by simp
  qed
  from first1 a have "First (first_fault env2) uid d1 = Inr user1"
    by simp
  moreover from score name1 a have "GetUserGamificationScore env2 user1 = Inr response"
    by (simp add: GetUserGamificationScore_def)
  moreover from total1 have "decimal_Equal (TotalCommunity user1) ?new"
    by (simp add: decimal_Equal_iff)
  ultimately show "HandleUpdateSingleUserGamificationScore env2 (Inr uid) d1 = (d1, None)"
    by (rule worker_unchanged_score)
qed

theorem C3_idempotence_witness:
  "HandleUpdateSingleUserGamificationScore (example_worker_env 135 None None) (Inr 1)
     (example_db (decimal_NewFromInt 135)) = (example_db (decimal_NewFromInt 135), None)
   \<and> (\<exists>d1. HandleUpdateSingleUserGamificationScore (example_worker_env 135 None None) (Inr 1)
           (example_db (decimal_NewFromInt 100)) = (d1, None)
         \<and> length (orders d1) = 1
         \<and> HandleUpdateSingleUserGamificationScore (example_worker_env 135 None None) (Inr 1) d1
             = (d1, None))"
proof -
  let ?env = "example_worker_env 135 None None"
  have eq: "decimal_Equal (TotalCommunity (example_user 1 ''alice'' (decimal_NewFromInt 135)))
              (decimal_NewFromInt (GamificationScore \<lparr>GamificationScore = 135\<rparr>))"
    by (simp add: example_user_def decimal_Equal_iff)
  have neq: "\<not> decimal_Equal (TotalCommunity (example_user 1 ''alice'' (decimal_NewFromInt 100)))
               (decimal_NewFromInt (GamificationScore \<lparr>GamificationScore = 135\<rparr>))"
    by (simp add: example_user_def NewFromInt_numeral_values)
  have noop: "HandleUpdateSingleUserGamificationScore ?env (Inr 1)
     (example_db (decimal_NewFromInt 135)) = (example_db (decimal_NewFromInt 135), None)"
    using C3_idempotence [of ?env 1 "example_db (decimal_NewFromInt 135)"
        "example_user 1 ''alice'' (decimal_NewFromInt 135)" "\<lparr>GamificationScore = 135\<rparr>"]
      example_run_facts(1,2) eq
    by simp
  have run1: "HandleUpdateSingleUserGamificationScore ?env (Inr 1) (example_db (decimal_NewFromInt 100))
      = (applied ?env (example_user 1 ''alice'' (decimal_NewFromInt 100))
           (decimal_NewFromInt (GamificationScore \<lparr>GamificationScore = 135\<rparr>))
           (example_db (decimal_NewFromInt 100)), None)"
    using example_run_facts(1) example_run_facts(2) neq example_run_facts(3)
      example_run_facts(4) example_run_facts(5)
    by (rule worker_applies)
  have f: "first_fault ?env = None"
    by (simp add: example_worker_env_def)
  from run1 f show ?thesis
    using noop
      C3_idempotence [of ?env 1 "example_db (decimal_NewFromInt 100)" _ _ _ ?env]
    by (simp add: applied_orders example_run_facts(7))
qed


lemma decimal_String_examples:
  "decimal_String (Hundredths 5000) = ''50''"
  "decimal_String (Hundredths 4000) = ''40''"
  "decimal_String (Hundredths (- 1000)) = ''-10''"
  by (simp_all add: decimal_String.simps Let_def decimal_string.simps digit_byte_def)

lemma decimal_Add_negative: "decimal_Add a (Hundredths (- k)) = decimal_Sub a (Hundredths k)"
  by (cases a) simp

text \<open>
  The amount of the order is the signed difference: with 50.00 stored and a score of 40
  it is \<open>-10.00\<close>, not the magnitude 10.00.
\<close>

theorem C4_negative_amount_counterexample:
  "map Amount (orders (fst (HandleUpdateSingleUserGamificationScore
       (example_worker_env 40 None None) (Inr 1) (example_db (decimal_NewFromInt 50)))))
     = [Hundredths (- 1000)]
   \<and> Hundredths (- 1000) \<noteq> decimal_NewFromInt 10
   \<and> hundredths (Hundredths (- 1000)) < 0"
proof -
  let ?env = "example_worker_env 40 None None"
  have neq: "\<not> decimal_Equal (TotalCommunity (example_user 1 ''alice'' (decimal_NewFromInt 50)))
               (decimal_NewFromInt (GamificationScore \<lparr>GamificationScore = 40\<rparr>))"
    by (simp add: example_user_def NewFromInt_numeral_values)
  have "HandleUpdateSingleUserGamificationScore ?env (Inr 1) (example_db (decimal_NewFromInt 50))
      = (applied ?env (example_user 1 ''alice'' (decimal_NewFromInt 50))
           (decimal_NewFromInt (GamificationScore \<lparr>GamificationScore = 40\<rparr>))
           (example_db (decimal_NewFromInt 50)), None)"
    using example_run_facts(1) example_run_facts(2) neq example_run_facts(3)
      example_run_facts(4) example_run_facts(5)
    by (rule worker_applies)
  then show ?thesis
    by (simp add: applied_orders example_run_facts(6,7) community_order_fields
        NewFromInt_numeral_values)
qed

text \<open>
  C4, as amended: for a user whose stored \<open>total_community\<close> is 50.00 and whose observed
  score is 40, a run of the worker that meets no failure subtracts 10.00 from
  \<open>total_receive\<close> and from \<open>available_balance\<close>, sets \<open>total_community\<close> to 40.00, and
  creates one community order whose amount is the signed difference \<open>-10.00\<close> and whose
  remark names the old balance 50, the new balance 40 and the change \<open>-10\<close>.
\<close>

theorem C4_negative_correction:
  assumes "First (first_fault env) uid d = Inr user"
    and "GetUserGamificationScore env user = Inr response"
    and "GamificationScore response = 40"
    and "TotalCommunity user = decimal_NewFromInt 50"
    and "update_fault env = None" and "create_fault env = None" and "commit_fault env = None"
  shows "\<exists>d' ord user'.
           HandleUpdateSingleUserGamificationScore env (Inr uid) d = (d', None)
           \<and> orders d' = orders d @ [ord]
           \<and> order_row.Type ord = OrderTypeCommunity
           \<and> Amount ord = decimal_NewFromInt (- 10)
           \<and> Remark ord = community_remark ''50'' ''40'' ''-10''
           \<and> First None uid d' = Inr user'
           \<and> TotalCommunity user' = decimal_NewFromInt 40
           \<and> TotalReceive user' = decimal_Sub (TotalReceive user) (decimal_NewFromInt 10)
           \<and> AvailableBalance user' = decimal_Sub (AvailableBalance user) (decimal_NewFromInt 10)"
proof -
  let ?new = "decimal_NewFromInt (GamificationScore response)"
  from assms(3,4) have neq: "\<not> decimal_Equal (TotalCommunity user) ?new"
    and new: "?new = Hundredths 4000"
    and old: "TotalCommunity user = Hundredths 5000"
    by (simp_all add: NewFromInt_numeral_values)
  from assms(1) have first: "First None uid d = Inr user"
    by (simp add: First_Inr)
  have run: "HandleUpdateSingleUserGamificationScore env (Inr uid) d = (applied env user ?new d, None)"
    using assms(1,2) neq assms(5-7) by (rule worker_applies)
  show ?thesis
    using run applied_First [OF first, of env ?new]
    by (simp add: applied_orders community_order_fields new old NewFromInt_numeral_values
        decimal_String_examples decimal_Add_negative)
qed

theorem C4_negative_correction_witness:
  "\<exists>d' ord user'.
     HandleUpdateSingleUserGamificationScore (example_worker_env 40 None None) (Inr 1)
       (example_db (decimal_NewFromInt 50)) = (d', None)
     \<and> orders d' = [ord]
     \<and> Amount ord = Hundredths (- 1000)
     \<and> Remark ord = community_remark ''50'' ''40'' ''-10''
     \<and> First None 1 d' = Inr user'
     \<and> TotalCommunity user' = Hundredths 4000
     \<and> TotalReceive user' = Hundredths 24000
     \<and> AvailableBalance user' = Hundredths 19000"
proof -
  have score: "GamificationScore \<lparr>GamificationScore = 40\<rparr> = 40"
    by simp
  show ?thesis
    using C4_negative_correction [OF example_run_facts(1) example_run_facts(2) score
        example_run_facts(6) example_run_facts(3) example_run_facts(4) example_run_facts(5)]
    by (auto simp: example_run_facts(7) example_user_def NewFromInt_numeral_values)
qed

lemma worker_cases:
  "fst (HandleUpdateSingleUserGamificationScore env payload d) = d
   \<or> (\<exists>user new. fst (HandleUpdateSingleUserGamificationScore env payload d) = applied env user new d)"
  by (auto simp: HandleUpdateSingleUserGamificationScore_def Let_def Transaction_def
      update_and_create_def UpdateColumns_def Create_def applied_def
      split: sum.splits if_splits option.splits)

text \<open>
  C10: whatever the payload, the datastore and the failures met, a run of the worker
  appends at most one order, and an order it appends has status success, type community,
  payer \<open>LINUX DO Community\<close>, the fixed order name, and a trade time equal to its expiry
  time.
\<close>

theorem C10_community_order_fields:
  "\<exists>new. orders (fst (HandleUpdateSingleUserGamificationScore env payload d)) = orders d @ new
     \<and> length new \<le> 1
     \<and> (\<forall>ord \<in> set new.
           order_row.Status ord = OrderStatusSuccess
           \<and> order_row.Type ord = OrderTypeCommunity
           \<and> PayerUsername ord = ''LINUX DO Community''
           \<and> OrderName ord = community_order_name
           \<and> TradeTime ord = ExpiresAt ord)"
proof -
  from worker_cases [of env payload d] show ?thesis
  proof
    assume "fst (HandleUpdateSingleUserGamificationScore env payload d) = d"
    then have "orders (fst (HandleUpdateSingleUserGamificationScore env payload d)) = orders d @ []"
      by simp
    then show ?thesis
      by (intro exI [of _ "[]"]) simp
  next
    assume "\<exists>user new. fst (HandleUpdateSingleUserGamificationScore env payload d)
              = applied env user new d"
    then obtain user new
      where "fst (HandleUpdateSingleUserGamificationScore env payload d) = applied env user new d"
      by blast
    then show ?thesis
      by (simp add: applied_orders community_order_fields)
  qed
qed

theorem C10_community_order_fields_witness:
  "\<exists>ord. orders (fst (HandleUpdateSingleUserGamificationScore (example_worker_env 135 None None)
             (Inr 1) (example_db (decimal_NewFromInt 100)))) = [ord]
     \<and> order_row.Status ord = ''success''
     \<and> order_row.Type ord = ''community''
     \<and> PayerUsername ord = ''LINUX DO Community''
     \<and> OrderName ord = community_order_name
     \<and> TradeTime ord = ExpiresAt ord"
proof -
  let ?env = "example_worker_env 135 None None"
  let ?d = "example_db (decimal_NewFromInt 100)"
  have neq: "\<not> decimal_Equal (TotalCommunity (example_user 1 ''alice'' (decimal_NewFromInt 100)))
               (decimal_NewFromInt (GamificationScore \<lparr>GamificationScore = 135\<rparr>))"
    by (simp add: example_user_def NewFromInt_numeral_values)
  have "HandleUpdateSingleUserGamificationScore ?env (Inr 1) ?d
      = (applied ?env (example_user 1 ''alice'' (decimal_NewFromInt 100))
           (decimal_NewFromInt (GamificationScore \<lparr>GamificationScore = 135\<rparr>)) ?d, None)"
    using example_run_facts(1) example_run_facts(2) neq example_run_facts(3)
      example_run_facts(4) example_run_facts(5)
    by (rule worker_applies)
  then have len: "length (orders (fst (HandleUpdateSingleUserGamificationScore ?env (Inr 1) ?d))) = 1"
    by (simp add: applied_orders example_run_facts(7))
  from C10_community_order_fields [of ?env "Inr 1" ?d] obtain new
    where new: "orders (fst (HandleUpdateSingleUserGamificationScore ?env (Inr 1) ?d)) = orders ?d @ new"
      and all: "\<forall>ord \<in> set new.
           order_row.Status ord = OrderStatusSuccess
           \<and> order_row.Type ord = OrderTypeCommunity
           \<and> PayerUsername ord = ''LINUX DO Community''
           \<and> OrderName ord = community_order_name
           \<and> TradeTime ord = ExpiresAt ord"
    by blast
  from new len obtain ord where "new = [ord]"
    by (cases new) (simp_all add: example_run_facts(7))
  with new all show ?thesis
    by (simp add: example_run_facts(7) OrderStatusSuccess_def OrderTypeCommunity_def)
qed

section \<open>Reconciliation dispatcher: properties\<close>











































end
